theory Spec2Isabelle
  imports Main
begin

section \<open>milter-addmessageid: the MessageIDMilter session and its identifier generator\<close>

text \<open>
  The development embeds \<^verbatim>\<open>src/milter-addmessageid.py\<close>. Python \<^verbatim>\<open>bytes\<close> are lists of
  8-bit characters. A Python \<^verbatim>\<open>str\<close> is held as the bytes of its UTF-8 encoding: string
  concatenation is \<open>@\<close>, the truth test \<^verbatim>\<open>not s\<close> is \<open>s = []\<close>, and \<^verbatim>\<open>s.encode("utf8")\<close>
  hands the held bytes out. (A string with an unpaired surrogate has no UTF-8 encoding and
  no place in this model.) The calls into the operating system and into libmilter are
  taken to return: what they return is part of the state below.
\<close>

type_synonym bytes = "char list"
type_synonym str = "char list"

subsection \<open>Library values the program uses\<close>

text \<open>The verdict constants of libmilter; every callback of the program answers with one.\<close>

datatype verdict = CONTINUE | ACCEPT | REJECT | TEMPFAIL | DISCARD

text \<open>
  \<^verbatim>\<open>bytes.lower()\<close>: the bytes \<^verbatim>\<open>A\<close>..\<^verbatim>\<open>Z\<close> (65..90) move to \<^verbatim>\<open>a\<close>..\<^verbatim>\<open>z\<close>, every
  other byte stays.
\<close>

definition lower_byte :: "char \<Rightarrow> char" where
  "lower_byte c =
     (if 65 \<le> (of_char c :: nat) \<and> (of_char c :: nat) \<le> 90
      then char_of ((of_char c :: nat) + 32) else c)"

definition lower :: "bytes \<Rightarrow> bytes" where
  "lower key = map lower_byte key"

text \<open>\<^verbatim>\<open>bytes.hex()\<close>: two lowercase hexadecimal digits per byte, high nibble first.\<close>

definition hexdigit :: "nat \<Rightarrow> char" where
  "hexdigit d = (if d < 10 then char_of (48 + d) else char_of (87 + d))"

definition hex_byte :: "char \<Rightarrow> str" where
  "hex_byte b = [hexdigit ((of_char b :: nat) div 16), hexdigit ((of_char b :: nat) mod 16)]"

definition hex :: "bytes \<Rightarrow> str" where
  "hex bs = concat (map hex_byte bs)"

text \<open>\<^verbatim>\<open>str(n)\<close> for a Python integer: decimal digits, a leading minus sign when negative.\<close>

fun decimal :: "nat \<Rightarrow> str" where
  "decimal n =
     (if n < 10 then [char_of (48 + n)]
      else decimal (n div 10) @ [char_of (48 + n mod 10)])"

declare decimal.simps [simp del]

definition str_int :: "int \<Rightarrow> str" where
  "str_int i = (if i < 0 then CHR ''-'' # decimal (nat (- i)) else decimal (nat i))"

text \<open>
  \<^verbatim>\<open>str(b)\<close> for a bytes object, which \<^verbatim>\<open>"{!s}".format(b)\<close> evaluates: the literal
  form \<^verbatim>\<open>b'...'\<close>. Double quotes delimit when the bytes hold a single quote and no double
  quote. The delimiter and the backslash are escaped with a backslash; tab, newline and
  carriage return are written \<^verbatim>\<open>\t\<close>, \<^verbatim>\<open>\n\<close>, \<^verbatim>\<open>\r\<close>; other bytes below 32 or from 127
  up are written \<^verbatim>\<open>\xNN\<close>.
\<close>

definition repr_quote :: "bytes \<Rightarrow> char" where
  "repr_quote bs =
     (if CHR 0x27 \<in> set bs \<and> CHR 0x22 \<notin> set bs then CHR 0x22 else CHR 0x27)"

definition repr_byte :: "char \<Rightarrow> char \<Rightarrow> str" where
  "repr_byte q c =
     (if c = q \<or> c = CHR 0x5C then [CHR 0x5C, c]
      else if c = CHR 0x09 then [CHR 0x5C, CHR ''t'']
      else if c = CHR 0x0A then [CHR 0x5C, CHR ''n'']
      else if c = CHR 0x0D then [CHR 0x5C, CHR ''r'']
      else if (of_char c :: nat) < 32 \<or> 127 \<le> (of_char c :: nat)
        then [CHR 0x5C, CHR ''x''] @ hex_byte c
      else [c])"

definition str_bytes :: "bytes \<Rightarrow> str" where
  "str_bytes bs =
     (let q = repr_quote bs in [CHR ''b'', q] @ concat (map (repr_byte q) bs) @ [q])"

subsection \<open>The state the program runs in\<close>

text \<open>
  One \<^verbatim>\<open>MessageIDMilter\<close> object. \<open>inst_has_messageid\<close> is the entry
  \<^verbatim>\<open>has_messageid\<close> of the object's own attribute dictionary: \<open>None\<close> until a method
  assigns \<^verbatim>\<open>self.has_messageid\<close>. \<open>added_headers\<close> are the \<^verbatim>\<open>addHeader\<close> requests the
  object has sent to the MTA, oldest first.
\<close>

record milter =
  inst_has_messageid :: "bool option"
  added_headers :: "(bytes \<times> bytes) list"

text \<open>
  The interpreter and its surroundings. \<open>class_has_messageid\<close> is the attribute the class
  body declares (\<^verbatim>\<open>has_messageid = False\<close>, line 58); \<open>objects\<close> is the store of
  MessageIDMilter objects by identity; \<open>stdout\<close> is what has been printed. The last three
  fields are what the operating system answers: \<open>clock_us\<close> is the integer
  \<^verbatim>\<open>int(time.time() * 1000000)\<close>, \<open>entropy\<close> is the sequence of bytes \<^verbatim>\<open>os.urandom\<close>
  will hand out, \<open>fqdn\<close> is the string \<^verbatim>\<open>socket.getfqdn()\<close> returns.
\<close>

record world =
  class_has_messageid :: bool
  objects :: "nat \<Rightarrow> milter"
  stdout :: str
  clock_us :: int
  entropy :: "nat \<Rightarrow> char"
  fqdn :: str

text \<open>Reading \<^verbatim>\<open>self.has_messageid\<close>: the object's own entry, else the class attribute.\<close>

definition get_has_messageid :: "world \<Rightarrow> nat \<Rightarrow> bool" where
  "get_has_messageid w self =
     (case inst_has_messageid (objects w self) of
        Some b \<Rightarrow> b
      | None \<Rightarrow> class_has_messageid w)"

text \<open>Assigning \<^verbatim>\<open>self.has_messageid = b\<close>: writes the object's own entry only.\<close>

definition set_has_messageid :: "nat \<Rightarrow> bool \<Rightarrow> world \<Rightarrow> world" where
  "set_has_messageid self b w =
     w\<lparr>objects := (objects w)(self := (objects w self)\<lparr>inst_has_messageid := Some b\<rparr>)\<rparr>"

text \<open>\<^verbatim>\<open>self.addHeader(key, val)\<close> of libmilter: a header-injection request to the MTA.\<close>

definition addHeader :: "nat \<Rightarrow> bytes \<Rightarrow> bytes \<Rightarrow> world \<Rightarrow> world" where
  "addHeader self key val w =
     w\<lparr>objects := (objects w)(self := (objects w self)
        \<lparr>added_headers := added_headers (objects w self) @ [(key, val)]\<rparr>)\<rparr>"

text \<open>\<^verbatim>\<open>os.urandom(n)\<close>: the next \<open>n\<close> bytes of the random source.\<close>

definition urandom :: "nat \<Rightarrow> world \<Rightarrow> bytes \<times> world" where
  "urandom n w = (map (entropy w) [0..<n], w\<lparr>entropy := (\<lambda>i. entropy w (i + n))\<rparr>)"

subsection \<open>MessageIDMilter\<close>

text \<open>\<^verbatim>\<open>log\<close> (lines 72-75): print the message and a newline to stdout.\<close>

definition log :: "str \<Rightarrow> world \<Rightarrow> world" where
  "log message w = w\<lparr>stdout := stdout w @ message @ [CHR 0x0A]\<rparr>"

text \<open>\<^verbatim>\<open>header\<close> (lines 77-87). The value and the command dictionary are not read.\<close>

definition header :: "nat \<Rightarrow> bytes \<Rightarrow> bytes \<Rightarrow> 'd \<Rightarrow> world \<Rightarrow> verdict option \<times> world" where
  "header self key val cmdDict w =
     (let w1 = (if lower key = ''message-id'' then set_has_messageid self True w else w)
      in (Some CONTINUE, w1))"

text \<open>\<^verbatim>\<open>str.encode("utf8")\<close>: the UTF-8 bytes of the string, which is how it is held.\<close>

definition encode_utf8 :: "str \<Rightarrow> bytes" where
  "encode_utf8 s = s"

text \<open>\<^verbatim>\<open>create_messageid\<close> (lines 113-132).\<close>

definition create_messageid :: "world \<Rightarrow> bytes \<times> world" where
  "create_messageid w =
     (let microseconds = str_int (clock_us w);
          (r1, w1) = urandom 8 w;
          random_part = hex r1;
          (name, w2) =
            (if fqdn w1 = [] then (let (r2, w') = urandom 8 w1 in (hex r2, w'))
             else (fqdn w1, w1));
          message_id = '' <'' @ microseconds @ ''.'' @ random_part @ ''@'' @ name @ ''>''
      in (encode_utf8 message_id, w2))"

text \<open>\<^verbatim>\<open>eob\<close> (lines 89-101).\<close>

definition eob :: "nat \<Rightarrow> 'd \<Rightarrow> world \<Rightarrow> verdict option \<times> world" where
  "eob self cmdDict w =
     (if get_has_messageid w self then (Some CONTINUE, set_has_messageid self False w)
      else
        (let key = ''Message-ID'';
             (val, w1) = create_messageid w;
             w2 = log (''Message without Message-ID received. Adding header: ''
                       @ str_bytes key @ '' with value '' @ str_bytes val) w1;
             w3 = addHeader self key val w2
         in (Some CONTINUE, w3)))"

text \<open>\<^verbatim>\<open>close\<close> (lines 103-106) and \<^verbatim>\<open>abort\<close> (lines 108-111); both return \<^verbatim>\<open>None\<close>.\<close>

definition close :: "nat \<Rightarrow> world \<Rightarrow> verdict option \<times> world" where
  "close self w = (None, set_has_messageid self False w)"

definition abort :: "nat \<Rightarrow> world \<Rightarrow> verdict option \<times> world" where
  "abort self w = (None, set_has_messageid self False w)"

text \<open>
  Object creation (\<^verbatim>\<open>__init__\<close>, lines 60-70) assigns no \<^verbatim>\<open>has_messageid\<close>: a new object
  has no entry of its own and has sent no request.
\<close>

definition new_milter :: milter where
  "new_milter = \<lparr>inst_has_messageid = None, added_headers = []\<rparr>"

text \<open>
  The program at start: the class attribute as line 58 declares it, nothing printed, and
  every object as created.
\<close>

definition start_world :: "int \<Rightarrow> (nat \<Rightarrow> char) \<Rightarrow> str \<Rightarrow> world" where
  "start_world t e n =
     \<lparr>class_has_messageid = False, objects = (\<lambda>_. new_milter), stdout = [],
      clock_us = t, entropy = e, fqdn = n\<rparr>"

subsection \<open>The callbacks as the protocol engine delivers them\<close>

datatype 'd callback = Header bytes bytes 'd | Eob 'd | Close | Abort

definition dispatch :: "nat \<Rightarrow> 'd callback \<Rightarrow> world \<Rightarrow> verdict option \<times> world" where
  "dispatch self cb w =
     (case cb of
        Header key val d \<Rightarrow> header self key val d w
      | Eob d \<Rightarrow> eob self d w
      | Close \<Rightarrow> close self w
      | Abort \<Rightarrow> abort self w)"

text \<open>The header callbacks of one message, delivered in order.\<close>

fun headers :: "nat \<Rightarrow> (bytes \<times> bytes) list \<Rightarrow> 'd \<Rightarrow> world \<Rightarrow> world" where
  "headers self [] d w = w"
| "headers self ((key, val) # hs) d w = headers self hs d (snd (header self key val d w))"

text \<open>Callbacks for several sessions, each with the object it is delivered to, in order.\<close>

fun deliver :: "(nat \<times> 'd callback) list \<Rightarrow> world \<Rightarrow> world" where
  "deliver [] w = w"
| "deliver ((self, cb) # evs) w = deliver evs (snd (dispatch self cb w))"

subsection \<open>Startup: the socket directory\<close>

text \<open>
  \<^verbatim>\<open>run_messageidmilter\<close>, lines 138-143. \<^verbatim>\<open>os.mkdir\<close> either creates the directory
  or raises one of the \<^verbatim>\<open>OSError\<close> classes.
\<close>

datatype os_error =
  FileExistsError | PermissionError | FileNotFoundError | NotADirectoryError | OtherOSError

text \<open>
  The \<^verbatim>\<open>try\<close> statement around \<^verbatim>\<open>os.mkdir(socketpath, 0o755)\<close>, given what
  \<^verbatim>\<open>os.mkdir\<close> did (\<open>None\<close>: it returned). The result is the exception that leaves
  the statement; \<open>None\<close> means control goes on to line 144. The handler is
  \<^verbatim>\<open>except OSError: pass\<close>, and every \<open>os_error\<close> is an \<^verbatim>\<open>OSError\<close>.
\<close>

definition mkdir_socketpath :: "os_error option \<Rightarrow> os_error option" where
  "mkdir_socketpath raised = (case raised of None \<Rightarrow> None | Some e \<Rightarrow> None)"

section \<open>What the specification says, as predicates\<close>

text \<open>
  Two bytes are the same up to case: they are equal, or one is an uppercase ASCII letter
  and the other its lowercase form, 32 above. Two byte strings are equal up to case when
  they are so byte by byte.
\<close>

definition is_upper :: "char \<Rightarrow> bool" where
  "is_upper c = (65 \<le> (of_char c :: nat) \<and> (of_char c :: nat) \<le> 90)"

definition same_letter :: "char \<Rightarrow> char \<Rightarrow> bool" where
  "same_letter x y =
     (x = y \<or> (is_upper x \<and> (of_char y :: nat) = of_char x + 32)
            \<or> (is_upper y \<and> (of_char x :: nat) = of_char y + 32))"

definition caseless_eq :: "bytes \<Rightarrow> bytes \<Rightarrow> bool" where
  "caseless_eq a b = list_all2 same_letter a b"

definition is_digit :: "char \<Rightarrow> bool" where
  "is_digit c = (48 \<le> (of_char c :: nat) \<and> (of_char c :: nat) \<le> 57)"

definition is_lower_hex :: "char \<Rightarrow> bool" where
  "is_lower_hex c = (is_digit c \<or> (97 \<le> (of_char c :: nat) \<and> (of_char c :: nat) \<le> 102))"

section \<open>Facts about the operations\<close>

subsection \<open>Names\<close>

lemma lower_literal: "lower ''message-id'' = ''message-id''"
  by (simp add: lower_def lower_byte_def)

lemma map_eq_list_all2: "(map f xs = map f ys) = list_all2 (\<lambda>x y. f x = f y) xs ys"
  by (induction xs arbitrary: ys) (auto simp: list_all2_Cons1)

lemma of_char_lower_byte:
  "(of_char (lower_byte c) :: nat) = (if is_upper c then of_char c + 32 else of_char c)"
  by (simp add: lower_byte_def is_upper_def)

lemma lower_byte_eq_iff: "(lower_byte x = lower_byte y) = same_letter x y"
proof -
  have "(lower_byte x = lower_byte y) =
      ((of_char (lower_byte x) :: nat) = of_char (lower_byte y))"
    by simp
  also have "\<dots> = same_letter x y"
    unfolding of_char_lower_byte same_letter_def
    by (auto simp add: is_upper_def dest: of_char_eqI)
  finally show ?thesis .
qed

lemma lower_eq_caseless: "(lower key = ''message-id'') = caseless_eq key ''message-id''"
proof -
  have "(lower key = ''message-id'') = (map lower_byte key = map lower_byte ''message-id'')"
    using lower_literal by (simp only: lower_def)
  then show ?thesis
    by (simp only: caseless_eq_def map_eq_list_all2 lower_byte_eq_iff)
qed

subsection \<open>The flag\<close>

lemma get_set_has_messageid:
  "get_has_messageid (set_has_messageid i b w) j = (if j = i then b else get_has_messageid w j)"
  by (simp add: get_has_messageid_def set_has_messageid_def split: option.splits)

lemma set_set_has_messageid:
  "set_has_messageid i b (set_has_messageid i c w) = set_has_messageid i b w"
  by (simp add: set_has_messageid_def)

lemma added_headers_set_has_messageid:
  "added_headers (objects (set_has_messageid i b w) j) = added_headers (objects w j)"
  by (simp add: set_has_messageid_def)

lemma objects_set_has_messageid_other:
  "j \<noteq> i \<Longrightarrow> objects (set_has_messageid i b w) j = objects w j"
  by (simp add: set_has_messageid_def)

lemma fields_set_has_messageid:
  "class_has_messageid (set_has_messageid i b w) = class_has_messageid w"
  "stdout (set_has_messageid i b w) = stdout w"
  "clock_us (set_has_messageid i b w) = clock_us w"
  "entropy (set_has_messageid i b w) = entropy w"
  "fqdn (set_has_messageid i b w) = fqdn w"
  by (simp_all add: set_has_messageid_def)

subsection \<open>header\<close>

lemma header_result:
  "header self key val d w =
     (Some CONTINUE, if caseless_eq key ''message-id'' then set_has_messageid self True w else w)"
  by (simp add: header_def lower_eq_caseless)

lemma headers_result:
  "headers self hs d w =
     (if \<exists>h\<in>set hs. caseless_eq (fst h) ''message-id'' then set_has_messageid self True w else w)"
proof (induction hs arbitrary: w)
  case Nil
  show ?case by simp
next
  case (Cons h hs)
  obtain key val where h: "h = (key, val)" by (cases h)
  show ?case
    by (simp add: h Cons.IH header_result set_set_has_messageid)
qed

subsection \<open>Digits\<close>

lemma of_char_hexdigit:
  "d < 16 \<Longrightarrow> (of_char (hexdigit d) :: nat) = (if d < 10 then 48 + d else 87 + d)"
  by (simp add: hexdigit_def)

lemma hexdigit_lower_hex: "d < 16 \<Longrightarrow> is_lower_hex (hexdigit d)"
  by (simp add: is_lower_hex_def is_digit_def of_char_hexdigit)

lemma hexdigit_inj: "d < 16 \<Longrightarrow> e < 16 \<Longrightarrow> hexdigit d = hexdigit e \<Longrightarrow> d = e"
proof -
  assume d: "d < 16" and e: "e < 16" and eq: "hexdigit d = hexdigit e"
  from eq have "(of_char (hexdigit d) :: nat) = of_char (hexdigit e)" by simp
  with d e show "d = e"
    by (simp add: of_char_hexdigit split: if_splits)
qed

lemma high_nibble: "(of_char b :: nat) div 16 < 16"
proof -
  have "(of_char b :: nat) < 16 * 16"
    using nat_of_char_less_256 [of b] by simp
  then show ?thesis
    by (rule less_mult_imp_div_less)
qed

lemma hex_byte_inj: "hex_byte b = hex_byte c \<Longrightarrow> b = c"
proof -
  assume eq: "hex_byte b = hex_byte c"
  let ?m = "of_char b :: nat" and ?n = "of_char c :: nat"
  have m: "?m div 16 < 16" "?m mod 16 < 16" and n: "?n div 16 < 16" "?n mod 16 < 16"
    by (simp_all add: high_nibble)
  from eq have "hexdigit (?m div 16) = hexdigit (?n div 16)"
    and "hexdigit (?m mod 16) = hexdigit (?n mod 16)"
    by (simp_all add: hex_byte_def)
  then have "?m div 16 = ?n div 16" and "?m mod 16 = ?n mod 16"
    using m n by (blast intro: hexdigit_inj)+
  then have "?m = ?n"
    by (metis div_mult_mod_eq)
  then show "b = c" by simp
qed

lemma length_hex: "length (hex bs) = 2 * length bs"
  by (induction bs) (simp_all add: hex_def hex_byte_def)

lemma hex_lower_hex: "list_all is_lower_hex (hex bs)"
proof (induction bs)
  case Nil
  show ?case by (simp add: hex_def)
next
  case (Cons b bs)
  have "(of_char b :: nat) div 16 < 16" "(of_char b :: nat) mod 16 < 16"
    by (simp_all add: high_nibble)
  then have "list_all is_lower_hex (hex_byte b)"
    by (simp add: hex_byte_def hexdigit_lower_hex)
  with Cons show ?case by (simp add: hex_def)
qed

lemma hex_inj: "hex bs = hex cs \<Longrightarrow> bs = cs"
proof (induction bs arbitrary: cs)
  case Nil
  then have "length (hex cs) = 0" by (simp add: hex_def)
  then show ?case by (simp add: length_hex)
next
  case (Cons b bs)
  from Cons.prems have "length (hex cs) = 2 * Suc (length bs)"
    by (metis length_hex length_Cons)
  then obtain c cs' where cs: "cs = c # cs'"
    by (cases cs) (simp_all add: length_hex)
  from Cons.prems cs have "hex_byte b @ hex bs = hex_byte c @ hex cs'"
    by (simp add: hex_def)
  moreover have "length (hex_byte b) = length (hex_byte c)"
    by (simp add: hex_byte_def)
  ultimately have "hex_byte b = hex_byte c" and "hex bs = hex cs'"
    by simp_all
  with Cons.IH cs show ?case
    by (simp add: hex_byte_inj)
qed

lemma decimal_digits: "decimal n \<noteq> [] \<and> list_all is_digit (decimal n)"
proof (induction n rule: decimal.induct)
  case (1 n)
  show ?case
  proof (cases "n < 10")
    case True
    then show ?thesis
      by (subst decimal.simps, subst (2) decimal.simps) (simp add: is_digit_def)
  next
    case False
    have "n mod 10 < 10" by simp
    then have "is_digit (char_of (48 + n mod 10))"
      unfolding is_digit_def by simp
    with False "1.IH" show ?thesis
      by (subst decimal.simps, subst (2) decimal.simps) simp
  qed
qed

lemma length_urandom: "length (fst (urandom n w)) = n"
  by (simp add: urandom_def)


subsection \<open>create_messageid and eob\<close>

lemma create_messageid_fst:
  "fst (create_messageid w) =
     '' <'' @ str_int (clock_us w) @ ''.'' @ hex (fst (urandom 8 w)) @ ''@''
       @ (if fqdn w = [] then hex (fst (urandom 8 (snd (urandom 8 w)))) else fqdn w) @ ''>''"
  by (simp add: create_messageid_def encode_utf8_def urandom_def)

lemma create_messageid_frame:
  "objects (snd (create_messageid w)) = objects w"
  "class_has_messageid (snd (create_messageid w)) = class_has_messageid w"
  "stdout (snd (create_messageid w)) = stdout w"
  by (simp_all add: create_messageid_def urandom_def)

lemma create_messageid_reads:
  "clock_us w = clock_us v \<Longrightarrow> entropy w = entropy v \<Longrightarrow> fqdn w = fqdn v
     \<Longrightarrow> fst (create_messageid w) = fst (create_messageid v)"
  by (simp add: create_messageid_fst urandom_def)

lemma eob_seen:
  "get_has_messageid w self \<Longrightarrow> eob self d w = (Some CONTINUE, set_has_messageid self False w)"
  by (simp add: eob_def)

lemma eob_unseen_objects:
  "\<not> get_has_messageid w self \<Longrightarrow>
     fst (eob self d w) = Some CONTINUE \<and>
     objects (snd (eob self d w)) =
       (objects w)(self := (objects w self)
          \<lparr>added_headers :=
             added_headers (objects w self) @ [(''Message-ID'', fst (create_messageid w))]\<rparr>) \<and>
     class_has_messageid (snd (eob self d w)) = class_has_messageid w"
  by (simp add: eob_def Let_def split_beta addHeader_def log_def create_messageid_frame)

lemma eob_flag: "get_has_messageid (snd (eob self d w)) j = (j \<noteq> self \<and> get_has_messageid w j)"
proof (cases "get_has_messageid w self")
  case True
  then show ?thesis
    by (auto simp add: eob_seen get_set_has_messageid)
next
  case False
  then show ?thesis
    using eob_unseen_objects [OF False, of d]
    by (auto simp add: get_has_messageid_def split: option.splits)
qed

lemma transaction_starts_unseen:
  "\<not> get_has_messageid (start_world t e n) self"
  "\<not> get_has_messageid (snd (eob self d w)) self"
  "\<not> get_has_messageid (snd (close self w)) self"
  "\<not> get_has_messageid (snd (abort self w)) self"
  by (simp_all add: eob_flag close_def abort_def get_set_has_messageid)
    (simp add: get_has_messageid_def start_world_def new_milter_def)

lemma headers_unmatched:
  "\<forall>h\<in>set hs. \<not> caseless_eq (fst h) ''message-id'' \<Longrightarrow> headers self hs d w = w"
  by (simp add: headers_result)

lemma headers_matched:
  "\<exists>h\<in>set hs. caseless_eq (fst h) ''message-id''
     \<Longrightarrow> headers self hs d w = set_has_messageid self True w"
  by (simp add: headers_result)

lemma str_int_digits: "0 \<le> i \<Longrightarrow> str_int i \<noteq> [] \<and> list_all is_digit (str_int i)"
  by (simp add: str_int_def decimal_digits)

lemma hex_urandom_8:
  "length (hex (fst (urandom 8 w))) = 16 \<and> list_all is_lower_hex (hex (fst (urandom 8 w)))"
  by (simp add: length_hex length_urandom hex_lower_hex)

lemma create_messageid_clock: "clock_us (snd (create_messageid w)) = clock_us w"
  by (simp add: create_messageid_def urandom_def)

lemma transaction_requests:
  assumes "\<not> get_has_messageid w self"
  shows "added_headers (objects (snd (eob self d (headers self hs d w))) self) =
     added_headers (objects w self)
       @ (if \<exists>h\<in>set hs. caseless_eq (fst h) ''message-id'' then []
          else [(''Message-ID'', fst (create_messageid w))])"
proof (cases "\<exists>h\<in>set hs. caseless_eq (fst h) ''message-id''")
  case True
  then have "headers self hs d w = set_has_messageid self True w"
    by (rule headers_matched)
  then show ?thesis
    using True
    by (simp add: eob_seen get_set_has_messageid added_headers_set_has_messageid)
next
  case False
  then have "headers self hs d w = w"
    by (simp add: headers_unmatched)
  then show ?thesis
    using False assms eob_unseen_objects [of w self d]
    by simp
qed

lemma reset_then_transaction:
  "added_headers
     (objects (snd (eob self d (headers self hs d (set_has_messageid self False w)))) self) =
   added_headers (objects w self)
     @ (if \<exists>h\<in>set hs. caseless_eq (fst h) ''message-id'' then []
        else [(''Message-ID'', fst (create_messageid w))])"
proof -
  have "\<not> get_has_messageid (set_has_messageid self False w) self"
    by (simp add: get_set_has_messageid)
  moreover have "fst (create_messageid (set_has_messageid self False w)) = fst (create_messageid w)"
    by (rule create_messageid_reads) (simp_all add: fields_set_has_messageid)
  ultimately show ?thesis
    using transaction_requests [of "set_has_messageid self False w" self d hs]
    by (simp add: added_headers_set_has_messageid)
qed

lemma dispatch_flag:
  "get_has_messageid (snd (dispatch self cb w)) self =
     (case cb of
        Header key val d \<Rightarrow> caseless_eq key ''message-id'' \<or> get_has_messageid w self
      | Eob d \<Rightarrow> False
      | Close \<Rightarrow> False
      | Abort \<Rightarrow> False)"
  by (simp add: dispatch_def header_result get_set_has_messageid eob_flag close_def abort_def
      split: callback.splits)

lemma dispatch_other:
  assumes "j \<noteq> i"
  shows "get_has_messageid (snd (dispatch i cb w)) j = get_has_messageid w j \<and>
    objects (snd (dispatch i cb w)) j = objects w j \<and>
    class_has_messageid (snd (dispatch i cb w)) = class_has_messageid w"
proof (cases cb)
  case (Header key val d)
  with assms show ?thesis
    by (simp add: dispatch_def header_result get_set_has_messageid
        objects_set_has_messageid_other fields_set_has_messageid)
next
  case (Eob d)
  show ?thesis
  proof (cases "get_has_messageid w i")
    case True
    with assms Eob show ?thesis
      by (simp add: dispatch_def eob_seen get_set_has_messageid
          objects_set_has_messageid_other fields_set_has_messageid)
  next
    case False
    with assms Eob eob_unseen_objects [OF False, of d] show ?thesis
      by (simp add: dispatch_def eob_flag)
  qed
next
  case Close
  with assms show ?thesis
    by (simp add: dispatch_def close_def get_set_has_messageid
        objects_set_has_messageid_other fields_set_has_messageid)
next
  case Abort
  with assms show ?thesis
    by (simp add: dispatch_def abort_def get_set_has_messageid
        objects_set_has_messageid_other fields_set_has_messageid)
qed

lemma deliver_own_callbacks:
  "get_has_messageid w j = get_has_messageid v j \<Longrightarrow>
     get_has_messageid (deliver evs w) j =
     get_has_messageid (deliver (filter (\<lambda>e. fst e = j) evs) v) j"
proof (induction evs arbitrary: w v)
  case Nil
  then show ?case by simp
next
  case (Cons e evs)
  obtain i cb where e: "e = (i, cb)" by (cases e)
  show ?case
  proof (cases "i = j")
    case True
    have "get_has_messageid (snd (dispatch j cb w)) j = get_has_messageid (snd (dispatch j cb v)) j"
      by (simp add: dispatch_flag Cons.prems split: callback.splits)
    then show ?thesis
      using True e Cons.IH by simp
  next
    case False
    then have "get_has_messageid (snd (dispatch i cb w)) j = get_has_messageid v j"
      using dispatch_other [of j i cb w] Cons.prems by simp
    then show ?thesis
      using False e Cons.IH by simp
  qed
qed

section \<open>The claims\<close>

text \<open>
  C1. A session whose flag is false (as it is for a new session and after every
  end-of-message, close and abort: \<open>transaction_starts_unseen\<close>) receives the headers of a
  message, none of them named \<^verbatim>\<open>message-id\<close> (byte by byte, up to case). Then the
  end-of-message callback returns CONTINUE and has asked for exactly one more header: its
  name is \<^verbatim>\<open>Message-ID\<close> and its value is what \<^verbatim>\<open>create_messageid\<close> returned.
\<close>

theorem eob_adds_message_id:
  assumes "\<not> get_has_messageid w self"
    and "\<forall>h\<in>set hs. \<not> caseless_eq (fst h) ''message-id''"
  shows "fst (eob self d (headers self hs d w)) = Some CONTINUE \<and>
    added_headers (objects (snd (eob self d (headers self hs d w))) self) =
      added_headers (objects w self)
        @ [(''Message-ID'', fst (create_messageid (headers self hs d w)))]"
proof -
  from assms(2) have "headers self hs d w = w"
    by (simp add: headers_result)
  with assms(1) eob_unseen_objects [of w self d] show ?thesis
    by simp
qed

theorem eob_adds_message_id_witness:
  "\<not> get_has_messageid (start_world 1700000000123456 (\<lambda>i. char_of (i * 37 + 1)) ''mail.example.org'') 0 \<and>
   \<not> caseless_eq ''From'' ''message-id'' \<and> \<not> caseless_eq ''To'' ''message-id'' \<and>
   fst (eob 0 () (headers 0 [(''From'', ''a@b''), (''To'', ''c@d'')] ()
      (start_world 1700000000123456 (\<lambda>i. char_of (i * 37 + 1)) ''mail.example.org'')))
     = Some CONTINUE \<and>
   added_headers (objects (snd (eob 0 () (headers 0 [(''From'', ''a@b''), (''To'', ''c@d'')] ()
      (start_world 1700000000123456 (\<lambda>i. char_of (i * 37 + 1)) ''mail.example.org'')))) 0)
     = [(''Message-ID'', '' <1700000000123456.01264b7095badf04@mail.example.org>'')]"
proof -
  let ?w = "start_world 1700000000123456 (\<lambda>i. char_of (i * 37 + 1)) ''mail.example.org''"
  let ?hs = "[(''From'', ''a@b''), (''To'', ''c@d'')]"
  have flag: "\<not> get_has_messageid ?w 0"
    by (simp add: get_has_messageid_def start_world_def new_milter_def)
  have h1: "\<not> caseless_eq ''From'' ''message-id''"
    and h2: "\<not> caseless_eq ''To'' ''message-id''"
    by (simp_all add: caseless_eq_def)
  then have names: "\<forall>h\<in>set ?hs. \<not> caseless_eq (fst h) ''message-id''"
    by simp
  have run: "headers 0 ?hs () ?w = ?w"
    using names by (rule headers_unmatched)
  have upt_8: "[0..<8] = [0, 1, 2, 3, 4, 5, 6, 7::nat]"
    by (simp add: upt_rec)
  have ident: "fst (create_messageid ?w) = '' <1700000000123456.01264b7095badf04@mail.example.org>''"
    by (simp add: create_messageid_def encode_utf8_def start_world_def urandom_def hex_def hex_byte_def
        hexdigit_def str_int_def decimal.simps upt_8 char_of_eq_iff)
  have before: "added_headers (objects ?w 0) = []"
    by (simp add: start_world_def new_milter_def)
  from eob_adds_message_id [OF flag names, of "()"] flag h1 h2
  show ?thesis
    by (simp only: run ident before append_Nil simp_thms)
qed

text \<open>
  C2. A session receives the headers of a message, at least one of them named
  \<^verbatim>\<open>message-id\<close> (byte by byte, up to case, with any value). Then the end-of-message
  callback returns CONTINUE, asks for no header and prints nothing, and the flag of the
  session is false afterwards: all that differs from the state before the headers is the
  flag of this session, now stored as false.
\<close>

theorem eob_keeps_message_id:
  assumes "\<exists>h\<in>set hs. caseless_eq (fst h) ''message-id''"
  shows "fst (eob self d (headers self hs d w)) = Some CONTINUE \<and>
    snd (eob self d (headers self hs d w)) = set_has_messageid self False w \<and>
    (\<forall>j. added_headers (objects (snd (eob self d (headers self hs d w))) j) =
       added_headers (objects w j)) \<and>
    stdout (snd (eob self d (headers self hs d w))) = stdout w \<and>
    \<not> get_has_messageid (snd (eob self d (headers self hs d w))) self"
proof -
  from assms have run: "headers self hs d w = set_has_messageid self True w"
    by (simp add: headers_result)
  have "get_has_messageid (set_has_messageid self True w) self"
    by (simp add: get_set_has_messageid)
  then have "eob self d (headers self hs d w) = (Some CONTINUE, set_has_messageid self False w)"
    by (simp add: run eob_seen set_set_has_messageid)
  then show ?thesis
    by (simp add: added_headers_set_has_messageid fields_set_has_messageid get_set_has_messageid)
qed

theorem eob_keeps_message_id_witness:
  "caseless_eq ''MESSAGE-ID'' ''message-id'' \<and>
   added_headers (objects (snd (eob 0 () (headers 0 [(''From'', ''a@b''), (''MESSAGE-ID'', ''<x@y>'')] ()
      (start_world 5 (\<lambda>i. CHR ''r'') ''host'')))) 0) = [] \<and>
   \<not> get_has_messageid (snd (eob 0 () (headers 0 [(''From'', ''a@b''), (''MESSAGE-ID'', ''<x@y>'')] ()
      (start_world 5 (\<lambda>i. CHR ''r'') ''host'')))) 0"
proof -
  let ?w = "start_world 5 (\<lambda>i. CHR ''r'') ''host''"
  let ?hs = "[(''From'', ''a@b''), (''MESSAGE-ID'', ''<x@y>'')]"
  have name: "caseless_eq ''MESSAGE-ID'' ''message-id''"
    by (simp add: caseless_eq_def same_letter_def is_upper_def)
  then have names: "\<exists>h\<in>set ?hs. caseless_eq (fst h) ''message-id''"
    by simp
  have before: "added_headers (objects ?w 0) = []"
    by (simp add: start_world_def new_milter_def)
  from eob_keeps_message_id [OF names, of 0 "()" ?w] name before
  show ?thesis
    by metis
qed

text \<open>
  C3. For every clock reading that is not negative, every content of the random source
  and every string \<^verbatim>\<open>socket.getfqdn()\<close> returns, \<^verbatim>\<open>create_messageid\<close> returns the bytes
  of: a space, \<^verbatim>\<open><\<close>, the clock reading in decimal digits (at least one), a dot, exactly
  16 lowercase hexadecimal digits (the first 8 random bytes), \<^verbatim>\<open>@\<close>, a token that is not
  empty, and \<^verbatim>\<open>>\<close>. The token is the domain name; when that is empty the token is the
  16 lowercase hexadecimal digits of the next 8 random bytes.
\<close>

theorem create_messageid_format:
  assumes "0 \<le> clock_us w"
  shows "let digits = str_int (clock_us w);
             random_part = hex (fst (urandom 8 w));
             fallback = hex (fst (urandom 8 (snd (urandom 8 w))));
             token = (if fqdn w = [] then fallback else fqdn w)
         in fst (create_messageid w)
              = '' <'' @ digits @ ''.'' @ random_part @ ''@'' @ token @ ''>'' \<and>
            digits \<noteq> [] \<and> list_all is_digit digits \<and>
            length random_part = 16 \<and> list_all is_lower_hex random_part \<and>
            length fallback = 16 \<and> list_all is_lower_hex fallback \<and>
            token \<noteq> []"
proof -
  have "hex (fst (urandom 8 (snd (urandom 8 w)))) \<noteq> []"
    using hex_urandom_8 [of "snd (urandom 8 w)"] by auto
  then show ?thesis
    using str_int_digits [OF assms] hex_urandom_8 [of w] hex_urandom_8 [of "snd (urandom 8 w)"]
    by (simp add: Let_def create_messageid_fst)
qed

theorem create_messageid_format_witness:
  "(0::int) \<le> clock_us (start_world 1700000000123456 (\<lambda>i. char_of (i * 37 + 1)) []) \<and>
   fqdn (start_world 1700000000123456 (\<lambda>i. char_of (i * 37 + 1)) []) = [] \<and>
   fst (create_messageid (start_world 1700000000123456 (\<lambda>i. char_of (i * 37 + 1)) []))
     = '' <1700000000123456.01264b7095badf04@294e7398bde2072c>''"
proof -
  let ?w = "start_world 1700000000123456 (\<lambda>i. char_of (i * 37 + 1)) []"
  have clock: "0 \<le> clock_us ?w" and name: "fqdn ?w = []"
    by (simp_all add: start_world_def)
  have upt_8: "[0..<8] = [0, 1, 2, 3, 4, 5, 6, 7::nat]"
    by (simp add: upt_rec)
  have digits: "str_int (clock_us ?w) = ''1700000000123456''"
    by (simp add: start_world_def str_int_def decimal.simps char_of_eq_iff)
  have first: "hex (fst (urandom 8 ?w)) = ''01264b7095badf04''"
    by (simp add: start_world_def urandom_def hex_def hex_byte_def hexdigit_def upt_8
        char_of_eq_iff)
  have second: "hex (fst (urandom 8 (snd (urandom 8 ?w)))) = ''294e7398bde2072c''"
    by (simp add: start_world_def urandom_def hex_def hex_byte_def hexdigit_def upt_8
        char_of_eq_iff)
  from create_messageid_format [OF clock]
  have "fst (create_messageid ?w)
     = '' <'' @ ''1700000000123456'' @ ''.'' @ ''01264b7095badf04'' @ ''@''
         @ ''294e7398bde2072c'' @ ''>''"
    by (simp only: Let_def name digits first second simp_thms if_True)
  with clock name show ?thesis
    by simp
qed

text \<open>
  C4. For every session state, every header name (the empty one and arbitrary bytes
  included) and every header value, the header callback returns CONTINUE; it sets the
  flag \<^verbatim>\<open>has_messageid\<close> of the session to true when the name equals \<^verbatim>\<open>message-id\<close> byte by
  byte up to case, and changes nothing otherwise. So the flag reads true afterwards
  exactly when the name matched or the flag was true before.
\<close>

theorem header_continue_and_flag:
  "fst (header self key val d w) = Some CONTINUE \<and>
   snd (header self key val d w) =
     (if caseless_eq key ''message-id'' then set_has_messageid self True w else w) \<and>
   get_has_messageid (snd (header self key val d w)) self =
     (caseless_eq key ''message-id'' \<or> get_has_messageid w self)"
  by (simp add: header_result get_set_has_messageid)

theorem header_continue_and_flag_witness:
  "caseless_eq ''MESSAGE-Id'' ''message-id'' \<and>
   \<not> get_has_messageid (start_world 0 (\<lambda>i. CHR ''r'') ''host'') 7 \<and>
   fst (header 7 ''MESSAGE-Id'' ''<x@y>'' () (start_world 0 (\<lambda>i. CHR ''r'') ''host''))
     = Some CONTINUE \<and>
   get_has_messageid
     (snd (header 7 ''MESSAGE-Id'' ''<x@y>'' () (start_world 0 (\<lambda>i. CHR ''r'') ''host''))) 7"
proof -
  have name: "caseless_eq ''MESSAGE-Id'' ''message-id''"
    by (simp add: caseless_eq_def same_letter_def is_upper_def)
  have before: "\<not> get_has_messageid (start_world 0 (\<lambda>i. CHR ''r'') ''host'') 7"
    by (simp add: get_has_messageid_def start_world_def new_milter_def)
  from name before
    header_continue_and_flag
      [of 7 "''MESSAGE-Id''" "''<x@y>''" "()" "start_world 0 (\<lambda>i. CHR ''r'') ''host''"]
  show ?thesis by blast
qed

text \<open>
  C5. Once the flag of a session reads true, a header callback leaves it true, and so
  does any run of header callbacks. Of the four callbacks, the ones after which a flag
  that read true reads false are exactly end-of-message, close and abort.
\<close>

theorem flag_stays_until_reset:
  assumes "get_has_messageid w self"
  shows "get_has_messageid (snd (header self key val d w)) self \<and>
    get_has_messageid (headers self hs d w) self \<and>
    get_has_messageid (snd (dispatch self cb w)) self =
      (case cb of Header k v c \<Rightarrow> True | Eob c \<Rightarrow> False | Close \<Rightarrow> False | Abort \<Rightarrow> False)"
  using assms
  by (simp add: dispatch_def header_result headers_result get_set_has_messageid eob_flag
      close_def abort_def split: callback.splits)

theorem flag_stays_until_reset_witness:
  "get_has_messageid (set_has_messageid 3 True (start_world 0 (\<lambda>i. CHR ''r'') ''host'')) 3 \<and>
   get_has_messageid (headers 3 [(''From'', ''a@b''), (''To'', ''c@d'')] ()
      (set_has_messageid 3 True (start_world 0 (\<lambda>i. CHR ''r'') ''host''))) 3 \<and>
   \<not> get_has_messageid (snd (dispatch 3 (Eob ())
      (set_has_messageid 3 True (start_world 0 (\<lambda>i. CHR ''r'') ''host'')))) 3"
proof -
  let ?w = "set_has_messageid 3 True (start_world 0 (\<lambda>i. CHR ''r'') ''host'')"
  have seen: "get_has_messageid ?w 3"
    by (simp add: get_set_has_messageid)
  from seen flag_stays_until_reset [OF seen, of "''From''" "''a@b''" "()"
        "[(''From'', ''a@b''), (''To'', ''c@d'')]" "Eob ()"]
  show ?thesis
    by simp
qed

text \<open>
  C6. Whatever the flag of the session was, abort and close each return \<^verbatim>\<open>None\<close> and
  leave the flag false. Each is idempotent: doing it twice leaves the state that doing it
  once leaves. The state it leaves does not depend on the value the flag had, and the
  next transaction on the session is decided by its own headers alone: after the headers
  and end-of-message, one \<^verbatim>\<open>Message-ID\<close> header has been asked for when no header was
  named \<^verbatim>\<open>message-id\<close>, and none otherwise.
\<close>

theorem abort_close_reset:
  "fst (abort self w) = None \<and> fst (close self w) = None \<and>
   \<not> get_has_messageid (snd (abort self w)) self \<and>
   \<not> get_has_messageid (snd (close self w)) self \<and>
   snd (abort self (snd (abort self w))) = snd (abort self w) \<and>
   snd (close self (snd (close self w))) = snd (close self w) \<and>
   snd (abort self (set_has_messageid self b w)) = snd (abort self w) \<and>
   snd (close self (set_has_messageid self b w)) = snd (close self w) \<and>
   added_headers (objects (snd (eob self d (headers self hs d (snd (abort self w))))) self) =
     added_headers (objects w self)
       @ (if \<exists>h\<in>set hs. caseless_eq (fst h) ''message-id'' then []
          else [(''Message-ID'', fst (create_messageid w))]) \<and>
   added_headers (objects (snd (eob self d (headers self hs d (snd (close self w))))) self) =
     added_headers (objects w self)
       @ (if \<exists>h\<in>set hs. caseless_eq (fst h) ''message-id'' then []
          else [(''Message-ID'', fst (create_messageid w))])"
  by (simp add: abort_def close_def get_set_has_messageid set_set_has_messageid
      reset_then_transaction)

theorem abort_close_reset_witness:
  "get_has_messageid (set_has_messageid 3 True (start_world 0 (\<lambda>i. CHR ''r'') ''host'')) 3 \<and>
   \<not> get_has_messageid
       (snd (abort 3 (set_has_messageid 3 True (start_world 0 (\<lambda>i. CHR ''r'') ''host'')))) 3 \<and>
   \<not> get_has_messageid
       (snd (close 3 (set_has_messageid 3 True (start_world 0 (\<lambda>i. CHR ''r'') ''host'')))) 3 \<and>
   snd (abort 3 (set_has_messageid 3 True (start_world 0 (\<lambda>i. CHR ''r'') ''host'')))
     = snd (abort 3 (start_world 0 (\<lambda>i. CHR ''r'') ''host''))"
proof -
  let ?w = "start_world 0 (\<lambda>i. CHR ''r'') ''host''"
  have seen: "get_has_messageid (set_has_messageid 3 True ?w) 3"
    by (simp add: get_set_has_messageid)
  from seen
    abort_close_reset [of 3 "set_has_messageid 3 True ?w" True "()" "[]"]
    abort_close_reset [of 3 ?w True "()" "[]"]
  show ?thesis
    by blast
qed

text \<open>
  C7. The claim: when the socket directory cannot be created for a reason other than its
  being there already (a permission failure, say), startup reports an error, and only the
  already-exists condition is passed over. The program does otherwise: the handler
  \<^verbatim>\<open>except OSError: pass\<close> passes over every failure of \<^verbatim>\<open>os.mkdir\<close>, a permission
  failure as much as an existing directory, although its comment names the existing
  directory only.
\<close>

theorem mkdir_socketpath_swallows_errors:
  "mkdir_socketpath (Some PermissionError) = None \<and>
   mkdir_socketpath (Some FileExistsError) = None \<and>
   mkdir_socketpath None = None"
  by (simp add: mkdir_socketpath_def)

text \<open>
  C8. For every session state and every header name, the header callback returns the same
  verdict and leaves the same state whatever the header value is: the value is never
  read. The same holds of the command dictionary.
\<close>

theorem header_ignores_value:
  "header self key val1 d1 w = header self key val2 d2 w"
  by (simp add: header_def)

text \<open>
  C9. At one clock reading, identifiers made from different 8-byte random draws differ,
  whatever the domain tokens are: for a fixed timestamp \<^verbatim>\<open>create_messageid\<close> is injective
  in the draw. In particular two identifiers made one after the other within the same
  microsecond differ unless the random source repeats its 8 bytes.
\<close>

theorem create_messageid_injective_in_random_draw:
  assumes "clock_us w = clock_us v"
    and "fst (urandom 8 w) \<noteq> fst (urandom 8 v)"
  shows "fst (create_messageid w) \<noteq> fst (create_messageid v)"
proof
  assume same: "fst (create_messageid w) = fst (create_messageid v)"
  let ?a = "'' <'' @ str_int (clock_us v) @ ''.''"
  from assms(1) same have
    "?a @ hex (fst (urandom 8 w)) @ ''@''
        @ (if fqdn w = [] then hex (fst (urandom 8 (snd (urandom 8 w)))) else fqdn w) @ ''>''
     = ?a @ hex (fst (urandom 8 v)) @ ''@''
        @ (if fqdn v = [] then hex (fst (urandom 8 (snd (urandom 8 v)))) else fqdn v) @ ''>''"
    by (simp only: create_messageid_fst append_assoc)
  then have
    "hex (fst (urandom 8 w)) @ ''@''
        @ (if fqdn w = [] then hex (fst (urandom 8 (snd (urandom 8 w)))) else fqdn w) @ ''>''
     = hex (fst (urandom 8 v)) @ ''@''
        @ (if fqdn v = [] then hex (fst (urandom 8 (snd (urandom 8 v)))) else fqdn v) @ ''>''"
    by (simp only: same_append_eq)
  moreover have "length (hex (fst (urandom 8 w))) = length (hex (fst (urandom 8 v)))"
    by (simp add: length_hex length_urandom)
  ultimately have "hex (fst (urandom 8 w)) = hex (fst (urandom 8 v))"
    by (metis append_eq_append_conv)
  then have "fst (urandom 8 w) = fst (urandom 8 v)"
    by (rule hex_inj)
  with assms(2) show False
    by simp
qed

theorem create_messageid_injective_in_random_draw_witness:
  "clock_us (start_world 1700000000123456 (\<lambda>i. char_of (i * 37 + 1)) ''mail.example.org'')
     = clock_us (snd (create_messageid
         (start_world 1700000000123456 (\<lambda>i. char_of (i * 37 + 1)) ''mail.example.org''))) \<and>
   fst (urandom 8 (start_world 1700000000123456 (\<lambda>i. char_of (i * 37 + 1)) ''mail.example.org''))
     \<noteq> fst (urandom 8 (snd (create_messageid
         (start_world 1700000000123456 (\<lambda>i. char_of (i * 37 + 1)) ''mail.example.org'')))) \<and>
   fst (create_messageid
      (start_world 1700000000123456 (\<lambda>i. char_of (i * 37 + 1)) ''mail.example.org''))
     \<noteq> fst (create_messageid (snd (create_messageid
         (start_world 1700000000123456 (\<lambda>i. char_of (i * 37 + 1)) ''mail.example.org''))))"
proof -
  let ?w = "start_world 1700000000123456 (\<lambda>i. char_of (i * 37 + 1)) ''mail.example.org''"
  have clock: "clock_us ?w = clock_us (snd (create_messageid ?w))"
    by (simp only: create_messageid_clock)
  have "hd (fst (urandom 8 ?w)) = CHR 0x01"
    by (simp add: urandom_def start_world_def upt_rec char_of_eq_iff)
  moreover have "hd (fst (urandom 8 (snd (create_messageid ?w)))) = CHR 0x29"
    by (simp add: create_messageid_def urandom_def start_world_def upt_rec char_of_eq_iff)
  ultimately have draws: "fst (urandom 8 ?w) \<noteq> fst (urandom 8 (snd (create_messageid ?w)))"
    by auto
  from clock draws create_messageid_injective_in_random_draw [OF clock draws]
  show ?thesis
    by blast
qed

text \<open>
  C10. For two different session objects, a callback (header, end-of-message, close or
  abort) delivered to one leaves the flag the other reads unchanged, and with it the whole
  other object and the class attribute, although the initial value of the flag is
  declared once, in the class body. So however the callbacks of several sessions are
  interleaved, the flag of a session is what its own callbacks alone would have made it.
  In the witness a fresh session sees a \<^verbatim>\<open>Message-ID\<close> header and its flag turns true
  while another fresh session still reads false.
\<close>

theorem sessions_isolated:
  assumes "j \<noteq> i"
  shows "get_has_messageid (snd (dispatch i cb w)) j = get_has_messageid w j \<and>
    objects (snd (dispatch i cb w)) j = objects w j \<and>
    class_has_messageid (snd (dispatch i cb w)) = class_has_messageid w \<and>
    get_has_messageid (deliver evs w) j =
      get_has_messageid (deliver (filter (\<lambda>e. fst e = j) evs) w) j"
  using dispatch_other [OF assms] deliver_own_callbacks [of w j w evs]
  by simp

theorem sessions_isolated_witness:
  "(2::nat) \<noteq> 1 \<and>
   get_has_messageid (snd (dispatch 1 (Header ''Message-ID'' ''<x@y>'' ())
      (start_world 0 (\<lambda>i. CHR ''r'') ''host''))) 1 \<and>
   \<not> get_has_messageid (snd (dispatch 1 (Header ''Message-ID'' ''<x@y>'' ())
      (start_world 0 (\<lambda>i. CHR ''r'') ''host''))) 2"
proof -
  let ?w = "start_world 0 (\<lambda>i. CHR ''r'') ''host''"
  have distinct: "(2::nat) \<noteq> 1"
    by simp
  have name: "caseless_eq ''Message-ID'' ''message-id''"
    by (simp add: caseless_eq_def same_letter_def is_upper_def)
  then have own: "get_has_messageid (snd (dispatch 1 (Header ''Message-ID'' ''<x@y>'' ()) ?w)) 1"
    by (simp add: dispatch_def header_result get_set_has_messageid)
  have before: "\<not> get_has_messageid ?w 2"
    by (simp add: get_has_messageid_def start_world_def new_milter_def)
  from distinct own before
    sessions_isolated [OF distinct, of "Header ''Message-ID'' ''<x@y>'' ()" ?w "[]"]
  show ?thesis
    by blast
qed

end
